theory Spec2Isabelle
  imports Main "HOL-Library.Word"
begin

section \<open>Data model\<close>

text \<open>
  Bytes are 8-bit words and a Go byte slice is a list of them. A Go \<^verbatim>\<open>string\<close> is a
  sequence of bytes as well; it is modelled by \<^typ>\<open>string\<close>, whose characters are 8-bit.
\<close>

type_synonym byte = "8 word"
type_synonym bytes = "byte list"

definition string_of_bytes :: "bytes \<Rightarrow> string" where
  "string_of_bytes bs = map (\<lambda>b. char_of (unat b)) bs"

text \<open>
  The message-kind tags of the message module. Their literal byte values are declared in a
  file that is not part of the sources at hand, so every function that dispatches on a tag
  takes the assignment \<open>tg\<close> of kinds to bytes as a parameter. The tags are constants of
  a Go \<^verbatim>\<open>switch\<close>, which the compiler accepts only when they are pairwise different:
  this is the hypothesis \<open>inj tg\<close> of the theorems that need it.
\<close>

datatype MsgKind =
    MsgErrorReply
  | MsgReplyShutdown
  | MsgReplyInternalError
  | MsgSessionNotFound
  | MsgMaxSessConnsReached
  | MsgSessionsDisabled
  | MsgReplyProtocolError
  | MsgSessionCreated
  | MsgSessionClosed
  | MsgCloseSession
  | MsgRestoreSession
  | MsgSignalBinary
  | MsgSignalUtf8
  | MsgSignalUtf16
  | MsgRequestBinary
  | MsgRequestUtf8
  | MsgRequestUtf16
  | MsgReplyBinary
  | MsgReplyUtf8
  | MsgReplyUtf16

datatype PayloadEncoding = EncodingBinary | EncodingUtf8 | EncodingUtf16

record Payload =
  Encoding :: PayloadEncoding
  Data :: bytes

text \<open>
  A session. \<open>SessionInfo\<close> is an opaque attribute bag (an interface value in the source);
  \<open>None\<close> is Go's \<^verbatim>\<open>nil\<close>. Timestamps are instants counted from the zero value of
  \<^verbatim>\<open>time.Time\<close>.
\<close>

type_synonym SessionInfo = string
type_synonym time = int

record Session =
  Key :: string
  Creation :: time
  LastLookup :: time
  Info :: "SessionInfo option"

text \<open>The typed failures of the framework (the error values of package webwire).\<close>

datatype wwr_error =
    ReqErr string string
  | ReqInternalErr
  | ReqSrvShutdownErr
  | SessNotFoundErr
  | MaxSessConnsReachedErr
  | SessionsDisabledErr
  | DisconnectedErr
  | TimeoutErr

text \<open>
  A Go function either returns or panics. A panic keeps the state reached when it was
  raised, so that what had already happened can still be stated.
\<close>

datatype go_panic = SliceBoundsOutOfRange | PanicError string

datatype 'a outcome = Returned 'a | Panicked go_panic 'a

text \<open>The slice expression \<^verbatim>\<open>s[lo:]\<close>: it panics when \<open>lo\<close> exceeds the length.\<close>

definition sliceFrom :: "bytes \<Rightarrow> nat \<Rightarrow> bytes option" where
  "sliceFrom s lo = (if lo \<le> length s then Some (drop lo s) else None)"


section \<open>The client's message dispatcher (client/handle.go)\<close>

text \<open>
  The client's collaborators (request manager, hooks, loggers) are not part of the
  dispatcher. The model records every call the dispatcher makes on them, in order, in the
  field \<open>calls\<close>; the session mirror \<^verbatim>\<open>clt.session\<close> is the field \<open>session\<close>.
\<close>

datatype clt_call =
    Fulfill bytes Payload
  | Fail bytes wwr_error
  | HookOnServerSignal Payload
  | HookOnSessionCreated Session
  | HookOnSessionClosed
  | WarningLogPrintf byte
  | ErrorLogPrintf string

record Client =
  session :: "Session option"
  calls :: "clt_call list"

text \<open>
  The two uses of \<^verbatim>\<open>json.Unmarshal\<close> in the dispatcher. Decoding a session either fails
  with an error text or yields the session. Decoding an error reply fills a \<^verbatim>\<open>ReqErr\<close>
  (code and message) in place and may return an error next to it.
\<close>

record JsonDecoders =
  jsonUnmarshalSession :: "bytes \<Rightarrow> string + Session"
  jsonUnmarshalReqErr :: "bytes \<Rightarrow> (string \<times> string) \<times> string option"

text \<open>
  Modelled from the spec: \<^verbatim>\<open>extractMessageIdentifier\<close> is defined in a file of the client
  package that is not among the sources. By the frame layout \<^verbatim>\<open>[kind][reqId:8]...\<close> it
  returns the eight bytes after the tag; a frame shorter than nine bytes has no identifier
  (\<open>None\<close>: the slice expression panics).
\<close>

definition extractMessageIdentifier :: "bytes \<Rightarrow> bytes option" where
  "extractMessageIdentifier message =
     (if length message < 9 then None else Some (take 8 (drop 1 message)))"

definition record_call :: "clt_call \<Rightarrow> Client \<Rightarrow> Client" where
  "record_call c clt = clt\<lparr>calls := calls clt @ [c]\<rparr>"

definition handleSessionCreated :: "JsonDecoders \<Rightarrow> Client \<Rightarrow> bytes \<Rightarrow> Client" where
  "handleSessionCreated js clt sessionKey =
     (case jsonUnmarshalSession js sessionKey of
        Inl err \<Rightarrow>
          record_call (ErrorLogPrintf (''Failed unmarshalling session object: '' @ err)) clt
      | Inr sess \<Rightarrow>
          record_call (HookOnSessionCreated sess) (clt\<lparr>session := Some sess\<rparr>))"

definition handleSessionClosed :: "Client \<Rightarrow> Client" where
  "handleSessionClosed clt = record_call HookOnSessionClosed (clt\<lparr>session := None\<rparr>)"

definition handleFailure :: "JsonDecoders \<Rightarrow> Client \<Rightarrow> bytes \<Rightarrow> bytes \<Rightarrow> Client" where
  "handleFailure js clt reqID payload =
     (case jsonUnmarshalReqErr js payload of
        ((code, msg), Some err) \<Rightarrow>
          record_call (Fail reqID (ReqErr code msg))
            (record_call (ErrorLogPrintf (''Failed unmarshalling error reply: '' @ err)) clt)
      | ((code, msg), None) \<Rightarrow> record_call (Fail reqID (ReqErr code msg)) clt)"

definition handleInternalError :: "Client \<Rightarrow> bytes \<Rightarrow> Client" where
  "handleInternalError clt reqIdent = record_call (Fail reqIdent ReqInternalErr) clt"

definition handleReplyShutdown :: "Client \<Rightarrow> bytes \<Rightarrow> Client" where
  "handleReplyShutdown clt reqIdent = record_call (Fail reqIdent ReqSrvShutdownErr) clt"

definition handleSessionNotFound :: "Client \<Rightarrow> bytes \<Rightarrow> Client" where
  "handleSessionNotFound clt reqIdent = record_call (Fail reqIdent SessNotFoundErr) clt"

definition handleMaxSessConnsReached :: "Client \<Rightarrow> bytes \<Rightarrow> Client" where
  "handleMaxSessConnsReached clt reqIdent =
     record_call (Fail reqIdent MaxSessConnsReachedErr) clt"

definition handleSessionsDisabled :: "Client \<Rightarrow> bytes \<Rightarrow> Client" where
  "handleSessionsDisabled clt reqIdent = record_call (Fail reqIdent SessionsDisabledErr) clt"

definition handleReply :: "Client \<Rightarrow> bytes \<Rightarrow> Payload \<Rightarrow> Client" where
  "handleReply clt reqID payload = record_call (Fulfill reqID payload) clt"

text \<open>
  The three shapes of a branch of the dispatcher's switch: a reply with a payload that
  starts at offset \<open>off\<close>, a typed failure that only carries the request identifier, and a
  signal whose payload starts at offset 2. Each evaluates its slice expressions first and
  panics when one of them is out of range.
\<close>

definition dispatchReply ::
  "Client \<Rightarrow> bytes \<Rightarrow> PayloadEncoding \<Rightarrow> nat \<Rightarrow> Client outcome" where
  "dispatchReply clt message enc off =
     (case extractMessageIdentifier message of
        None \<Rightarrow> Panicked SliceBoundsOutOfRange clt
      | Some reqID \<Rightarrow>
          (case sliceFrom message off of
             None \<Rightarrow> Panicked SliceBoundsOutOfRange clt
           | Some d \<Rightarrow> Returned (handleReply clt reqID \<lparr>Encoding = enc, Data = d\<rparr>)))"

definition dispatchIdent ::
  "(Client \<Rightarrow> bytes \<Rightarrow> Client) \<Rightarrow> Client \<Rightarrow> bytes \<Rightarrow> Client outcome" where
  "dispatchIdent handler clt message =
     (case extractMessageIdentifier message of
        None \<Rightarrow> Panicked SliceBoundsOutOfRange clt
      | Some reqIdent \<Rightarrow> Returned (handler clt reqIdent))"

definition dispatchSignal :: "Client \<Rightarrow> bytes \<Rightarrow> PayloadEncoding \<Rightarrow> Client outcome" where
  "dispatchSignal clt message enc =
     (case sliceFrom message 2 of
        None \<Rightarrow> Panicked SliceBoundsOutOfRange clt
      | Some d \<Rightarrow> Returned (record_call (HookOnServerSignal \<lparr>Encoding = enc, Data = d\<rparr>) clt))"

definition handleMessage ::
  "(MsgKind \<Rightarrow> byte) \<Rightarrow> JsonDecoders \<Rightarrow> Client \<Rightarrow> bytes \<Rightarrow> Client outcome" where
  "handleMessage tg js clt message =
     (if length message < 1 then Returned clt
      else let t = hd message in
        if t = tg MsgReplyBinary then dispatchReply clt message EncodingBinary 9
        else if t = tg MsgReplyUtf8 then dispatchReply clt message EncodingUtf8 9
        else if t = tg MsgReplyUtf16 then dispatchReply clt message EncodingUtf16 10
        else if t = tg MsgReplyShutdown then dispatchIdent handleReplyShutdown clt message
        else if t = tg MsgSessionNotFound then dispatchIdent handleSessionNotFound clt message
        else if t = tg MsgMaxSessConnsReached then
          dispatchIdent handleMaxSessConnsReached clt message
        else if t = tg MsgSessionsDisabled then dispatchIdent handleSessionsDisabled clt message
        else if t = tg MsgErrorReply then
          (case extractMessageIdentifier message of
             None \<Rightarrow> Panicked SliceBoundsOutOfRange clt
           | Some reqID \<Rightarrow>
               (case sliceFrom message 9 of
                  None \<Rightarrow> Panicked SliceBoundsOutOfRange clt
                | Some d \<Rightarrow> Returned (handleFailure js clt reqID d)))
        else if t = tg MsgReplyInternalError then dispatchIdent handleInternalError clt message
        else if t = tg MsgSignalBinary then dispatchSignal clt message EncodingBinary
        else if t = tg MsgSignalUtf8 then dispatchSignal clt message EncodingUtf8
        else if t = tg MsgSignalUtf16 then dispatchSignal clt message EncodingUtf16
        else if t = tg MsgSessionCreated then
          Returned (handleSessionCreated js clt (drop 1 message))
        else if t = tg MsgSessionClosed then Returned (handleSessionClosed clt)
        else Returned (record_call (WarningLogPrintf t) clt))"

text \<open>
  A sample assignment of tags and sample decoders, used to evaluate the dispatcher on
  concrete frames. The decoders stand for the JSON library: the session decoder accepts
  exactly the frames that start with an opening brace.
\<close>

fun sampleTags :: "MsgKind \<Rightarrow> byte" where
  "sampleTags MsgErrorReply = 0"
| "sampleTags MsgReplyShutdown = 1"
| "sampleTags MsgReplyInternalError = 2"
| "sampleTags MsgSessionNotFound = 3"
| "sampleTags MsgMaxSessConnsReached = 4"
| "sampleTags MsgSessionsDisabled = 5"
| "sampleTags MsgReplyProtocolError = 6"
| "sampleTags MsgSessionCreated = 21"
| "sampleTags MsgSessionClosed = 22"
| "sampleTags MsgCloseSession = 31"
| "sampleTags MsgRestoreSession = 32"
| "sampleTags MsgSignalBinary = 63"
| "sampleTags MsgSignalUtf8 = 64"
| "sampleTags MsgSignalUtf16 = 65"
| "sampleTags MsgRequestBinary = 127"
| "sampleTags MsgRequestUtf8 = 128"
| "sampleTags MsgRequestUtf16 = 129"
| "sampleTags MsgReplyBinary = 191"
| "sampleTags MsgReplyUtf8 = 192"
| "sampleTags MsgReplyUtf16 = 193"

definition sampleSession :: Session where
  "sampleSession = \<lparr>Key = ''k1'', Creation = 5, LastLookup = 7, Info = Some ''{}''\<rparr>"

definition sampleDecoders :: JsonDecoders where
  "sampleDecoders =
     \<lparr>jsonUnmarshalSession =
        (\<lambda>bs. if bs \<noteq> [] \<and> hd bs = 123 then Inr sampleSession
              else Inl ''invalid character''),
      jsonUnmarshalReqErr = (\<lambda>bs. ((''E'', ''failed''), None))\<rparr>"

definition sampleClient :: Client where
  "sampleClient = \<lparr>session = Some sampleSession, calls = []\<rparr>"


section \<open>Session restoration on the server (handleSessionRestore)\<close>

text \<open>
  The value returned by the persistence hook \<^verbatim>\<open>OnSessionLookup\<close>, which the handler
  reads through \<^verbatim>\<open>Creation()\<close>, \<^verbatim>\<open>LastLookup()\<close> and \<^verbatim>\<open>Info()\<close>, and the structure
  the handler hands to \<^verbatim>\<open>json.Marshal\<close>.
\<close>

record SessionLookupResult =
  resCreation :: time
  resLastLookup :: time
  resInfo :: "SessionInfo option"

record JSONEncodedSession =
  encKey :: string
  encCreation :: time
  encLastLookup :: time
  encInfo :: "SessionInfo option"

record Message =
  msgPayload :: Payload

text \<open>
  The calls of the handler that have an effect outside of it (replies, log entries, the
  persistence hook, updates of the connection and of the registry), in the order in which
  it makes them. \<^verbatim>\<open>failMsg\<close>, \<^verbatim>\<open>fulfillMsg\<close> and the logger write to the transport and
  to the log; they leave the connection's session and the registry alone, so they are
  recorded and do not change the state. \<open>FailMsg None\<close> is
  \<^verbatim>\<open>srv.failMsg(con, message, nil)\<close>, the internal error reply; \<open>FailMsg (Some e)\<close> fails
  the message with the typed error \<open>e\<close>. A log entry is the format string of
  \<^verbatim>\<open>srv.errorLog.Printf\<close> with its arguments.
\<close>

datatype log_arg = LogString string | LogObject JSONEncodedSession

datatype srv_call =
    FailMsg "wwr_error option"
  | ErrorLog string "log_arg list"
  | CallOnSessionLookup string
  | CallSetSession Session
  | CallRegister
  | FulfillMsg PayloadEncoding bytes

text \<open>
  The state the handler can change is the session bound to the connection together with
  the session registry; it is the type parameter \<open>'s\<close>. The functions that read or
  change it (\<^verbatim>\<open>sessionConnectionsNum\<close>, \<^verbatim>\<open>setSession\<close>, \<^verbatim>\<open>register\<close>) are defined in
  files that are not among the sources, as are the persistence hook and the JSON library:
  all of them are parameters of the handler (\<open>sessionManagerLookup\<close> is
  \<^verbatim>\<open>srv.sessionManager.OnSessionLookup\<close>). \<^verbatim>\<open>sessionConnectionsNum\<close> returns a Go
  \<^verbatim>\<open>int\<close> (64 bits on the usual platforms, read as two's complement), \<^verbatim>\<open>register\<close>
  returns an error or nil.
\<close>

record 's Collaborators =
  sessionConnectionsNum :: "'s \<Rightarrow> string \<Rightarrow> 64 word"
  sessionManagerLookup :: "string \<Rightarrow> SessionLookupResult option \<times> string option"
  jsonMarshal :: "JSONEncodedSession \<Rightarrow> string + bytes"
  setSession :: "Session \<Rightarrow> 's \<Rightarrow> 's"
  register :: "'s \<Rightarrow> string option \<times> 's"

text \<open>
  The fields of the server the handler reads; \<open>maxConns\<close> is
  \<^verbatim>\<open>srv.sessionRegistry.maxConns\<close>, a Go \<^verbatim>\<open>uint\<close>.
\<close>

record server =
  sessionsEnabled :: bool
  maxConns :: "64 word"
  sessionInfoParser :: "(SessionInfo \<Rightarrow> SessionInfo option) option"

text \<open>
  The guard of lines 24 and 25:
  \<^verbatim>\<open>sessConsNum >= 0 && maxConns > 0 && uint(sessConsNum+1) > maxConns\<close>. The first
  comparison is signed, the addition wraps around, and the conversion to \<^verbatim>\<open>uint\<close> keeps
  the bits, so the last comparison is the unsigned order of words.
\<close>

definition capReached :: "server \<Rightarrow> 64 word \<Rightarrow> bool" where
  "capReached srv sessConsNum \<longleftrightarrow>
     word_sle 0 sessConsNum \<and> 0 < maxConns srv \<and> maxConns srv < sessConsNum + 1"

definition encodedSessionObj :: "string \<Rightarrow> SessionLookupResult \<Rightarrow> JSONEncodedSession" where
  "encodedSessionObj key result =
     \<lparr>encKey = key, encCreation = resCreation result,
      encLastLookup = resLastLookup result, encInfo = resInfo result\<rparr>"

definition parsedSessInfo :: "server \<Rightarrow> SessionInfo option \<Rightarrow> SessionInfo option" where
  "parsedSessInfo srv sessionInfo =
     (case sessionInfo of
        None \<Rightarrow> None
      | Some i \<Rightarrow> (case sessionInfoParser srv of None \<Rightarrow> None | Some parser \<Rightarrow> parser i))"

definition restoredSession :: "server \<Rightarrow> string \<Rightarrow> SessionLookupResult \<Rightarrow> Session" where
  "restoredSession srv key result =
     \<lparr>Key = key, Creation = resCreation result, LastLookup = resLastLookup result,
      Info = parsedSessInfo srv (resInfo result)\<rparr>"

definition handleSessionRestore ::
  "'s Collaborators \<Rightarrow> server \<Rightarrow> Message \<Rightarrow> 's \<Rightarrow> (srv_call list \<times> 's) outcome" where
  "handleSessionRestore env srv message s =
     (if \<not> sessionsEnabled srv then Returned ([FailMsg (Some SessionsDisabledErr)], s)
      else
        let key = string_of_bytes (Data (msgPayload message));
            sessConsNum = sessionConnectionsNum env s key
        in
          if capReached srv sessConsNum
          then Returned ([FailMsg (Some MaxSessConnsReachedErr)], s)
          else
            (case sessionManagerLookup env key of
               (_, Some err) \<Rightarrow>
                 Returned ([CallOnSessionLookup key, FailMsg None,
                   ErrorLog ''CRITICAL: Session search handler failed: %s''
                     [LogString err]], s)
             | (None, None) \<Rightarrow>
                 Returned ([CallOnSessionLookup key, FailMsg (Some SessNotFoundErr)], s)
             | (Some result, None) \<Rightarrow>
                 (case jsonMarshal env (encodedSessionObj key result) of
                    Inl err \<Rightarrow>
                      Returned ([CallOnSessionLookup key, FailMsg None,
                        ErrorLog ''Couldn't encode session object (%v): %s''
                          [LogObject (encodedSessionObj key result), LogString err]], s)
                  | Inr encodedSession \<Rightarrow>
                      let sess = restoredSession srv key result;
                          s1 = setSession env sess s;
                          (regErr, s2) = register env s1
                      in
                        (case regErr of
                           Some err \<Rightarrow>
                             Panicked
                               (PanicError
                                 ''The number of concurrent session connections was unexpectedly exceeded'')
                               ([CallOnSessionLookup key, CallSetSession sess, CallRegister], s2)
                         | None \<Rightarrow>
                             Returned
                               ([CallOnSessionLookup key, CallSetSession sess, CallRegister,
                                 FulfillMsg EncodingUtf8 encodedSession], s2)))))"

text \<open>Reading an outcome: the calls made, the final state, and the reply written.\<close>

fun trace_of :: "(srv_call list \<times> 's) outcome \<Rightarrow> srv_call list" where
  "trace_of (Returned (tr, s)) = tr"
| "trace_of (Panicked p (tr, s)) = tr"

fun state_of :: "(srv_call list \<times> 's) outcome \<Rightarrow> 's" where
  "state_of (Returned (tr, s)) = s"
| "state_of (Panicked p (tr, s)) = s"

fun returned :: "'a outcome \<Rightarrow> bool" where
  "returned (Returned x) = True"
| "returned (Panicked p x) = False"

fun is_reply :: "srv_call \<Rightarrow> bool" where
  "is_reply (FailMsg e) = True"
| "is_reply (FulfillMsg enc d) = True"
| "is_reply c = False"

fun mutating :: "srv_call \<Rightarrow> bool" where
  "mutating (CallSetSession sess) = True"
| "mutating CallRegister = True"
| "mutating c = False"

definition replies_of :: "(srv_call list \<times> 's) outcome \<Rightarrow> srv_call list" where
  "replies_of out = filter is_reply (trace_of out)"

text \<open>
  A sample instance, to evaluate the handler on concrete inputs. The state is the session
  bound to the connection paired with the registry, an association list from session keys
  to the number of connections of the key. The registry functions follow their
  description: \<^verbatim>\<open>sessionConnectionsNum\<close> returns \<open>-1\<close> for a key without a bucket.
\<close>

type_synonym sample_state = "Session option \<times> (string \<times> nat) list"

definition sampleConnectionsNum :: "sample_state \<Rightarrow> string \<Rightarrow> 64 word" where
  "sampleConnectionsNum s key =
     (case map_of (snd s) key of None \<Rightarrow> - 1 | Some n \<Rightarrow> of_nat n)"

definition sampleRegister :: "sample_state \<Rightarrow> string option \<times> sample_state" where
  "sampleRegister s =
     (case fst s of
        None \<Rightarrow> (Some ''no session'', s)
      | Some sess \<Rightarrow>
          (None, (fst s, (Key sess, (case map_of (snd s) (Key sess) of None \<Rightarrow> 1 | Some n \<Rightarrow> Suc n))
                   # filter (\<lambda>kv. fst kv \<noteq> Key sess) (snd s))))"

definition sampleLookup :: "string \<Rightarrow> SessionLookupResult option \<times> string option" where
  "sampleLookup key =
     (if key = ''k1'' then (Some \<lparr>resCreation = 5, resLastLookup = 7, resInfo = Some ''{}''\<rparr>, None)
      else if key = ''broken'' then (None, Some ''storage unavailable'')
      else (None, None))"

definition sampleMarshal :: "JSONEncodedSession \<Rightarrow> string + bytes" where
  "sampleMarshal obj = Inr (map (\<lambda>c. of_nat (of_char c)) (encKey obj))"

definition sampleEnv :: "sample_state Collaborators" where
  "sampleEnv =
     \<lparr>sessionConnectionsNum = sampleConnectionsNum,
      sessionManagerLookup = sampleLookup,
      jsonMarshal = sampleMarshal,
      setSession = (\<lambda>sess s. (Some sess, snd s)),
      register = sampleRegister\<rparr>"

definition sampleServer :: "bool \<Rightarrow> 64 word \<Rightarrow> server" where
  "sampleServer enabled cap =
     \<lparr>sessionsEnabled = enabled, maxConns = cap, sessionInfoParser = None\<rparr>"

definition restoreMessage :: "bytes \<Rightarrow> Message" where
  "restoreMessage key = \<lparr>msgPayload = \<lparr>Encoding = EncodingBinary, Data = key\<rparr>\<rparr>"

text \<open>
  The sample instance with a registration that fails although the cap check has passed, as
  when another connection of the session registers between the check and the
  registration. This is the case the panic of the handler is written for.
\<close>

definition racedEnv :: "sample_state Collaborators" where
  "racedEnv = sampleEnv\<lparr>register := (\<lambda>s. (Some ''max connections reached'', s))\<rparr>"


section \<open>The default session manager (file-based persistence)\<close>

text \<open>
  The serialization structure of a session file: \<open>fileCreation\<close> is the field
  \<^verbatim>\<open>Creation\<close>, tagged \<^verbatim>\<open>json:"c"\<close>, and \<open>fileInfo\<close> is the field \<^verbatim>\<open>Info\<close>, tagged
  \<^verbatim>\<open>json:"i"\<close>.
\<close>

record SessionFile =
  fileCreation :: time
  fileInfo :: "SessionInfo option"

record DefaultSessionManager =
  path :: string

text \<open>
  The operating system and the libraries the manager calls: \<^verbatim>\<open>filepath.Join\<close>,
  \<^verbatim>\<open>os.Stat\<close> (of which the manager only asks whether it succeeded, failed because the
  file does not exist, or failed otherwise), \<^verbatim>\<open>ioutil.ReadFile\<close>, \<^verbatim>\<open>ioutil.WriteFile\<close>,
  \<^verbatim>\<open>os.Remove\<close> and the JSON coding of a session file.
\<close>

datatype stat_result = StatOk | StatNotExist | StatError string

record OsLib =
  filepathJoin :: "string \<Rightarrow> string \<Rightarrow> string"
  osStat :: "string \<Rightarrow> stat_result"
  ioutilReadFile :: "string \<Rightarrow> string + bytes"
  ioutilWriteFile :: "string \<Rightarrow> bytes \<Rightarrow> nat \<Rightarrow> string option"
  osRemove :: "string \<Rightarrow> string option"
  jsonUnmarshalSessionFile :: "bytes \<Rightarrow> string + SessionFile"
  jsonMarshalSessionFile :: "SessionFile \<Rightarrow> string + bytes"

text \<open>The calls that change the file system, as the manager issues them.\<close>

datatype fs_call = IoWriteFile string bytes nat | OsRemove string

text \<open>The permission bits \<^verbatim>\<open>0640\<close>, an octal literal.\<close>

definition perm_0640 :: nat where
  "perm_0640 = 6 * 8 ^ 2 + 4 * 8 + 0"

definition Parse :: "OsLib \<Rightarrow> string \<Rightarrow> string + SessionFile" where
  "Parse os filePath =
     (case ioutilReadFile os filePath of
        Inl err \<Rightarrow> Inl (''Couldn't parse session file, failed reading file: '' @ err)
      | Inr contents \<Rightarrow> jsonUnmarshalSessionFile os contents)"

definition WriteFile :: "OsLib \<Rightarrow> SessionFile \<Rightarrow> string \<Rightarrow> fs_call list \<times> string option" where
  "WriteFile os sessf filePath =
     (case jsonMarshalSessionFile os sessf of
        Inl err \<Rightarrow> ([], Some (''Couldn't marshal session file: '' @ err))
      | Inr encoded \<Rightarrow>
          (case ioutilWriteFile os filePath encoded perm_0640 of
             Some err \<Rightarrow>
               ([IoWriteFile filePath encoded perm_0640],
                Some (''Couldn't write session file: '' @ err))
           | None \<Rightarrow> ([IoWriteFile filePath encoded perm_0640], None)))"

definition filePath :: "OsLib \<Rightarrow> DefaultSessionManager \<Rightarrow> string \<Rightarrow> string" where
  "filePath os mng sessionKey = filepathJoin os (path mng) (sessionKey @ ''.wwrsess'')"

text \<open>
  \<^verbatim>\<open>OnSessionCreated\<close> reads the session and the session key of the client it is given;
  here it takes the session itself.
\<close>

definition OnSessionCreated ::
  "OsLib \<Rightarrow> DefaultSessionManager \<Rightarrow> Session \<Rightarrow> fs_call list \<times> string option" where
  "OnSessionCreated os mng sess =
     WriteFile os \<lparr>fileCreation = Creation sess, fileInfo = Info sess\<rparr>
       (filePath os mng (Key sess))"

text \<open>
  The session returned by a successful lookup sets \<^verbatim>\<open>Key\<close>, \<^verbatim>\<open>Creation\<close> and
  \<^verbatim>\<open>Info\<close>; every other field keeps Go's zero value.
\<close>

definition OnSessionLookup ::
  "OsLib \<Rightarrow> DefaultSessionManager \<Rightarrow> string \<Rightarrow> Session option \<times> string option" where
  "OnSessionLookup os mng key =
     (let p = filePath os mng key in
      case osStat os p of
        StatNotExist \<Rightarrow> (None, None)
      | StatError err \<Rightarrow> (None, Some (''Unexpected error during file lookup: '' @ err))
      | StatOk \<Rightarrow>
          (case Parse os p of
             Inl err \<Rightarrow> (None, Some (''Couldn't parse session file: '' @ err))
           | Inr file \<Rightarrow>
               (Some \<lparr>Key = key, Creation = fileCreation file, LastLookup = 0,
                      Info = fileInfo file\<rparr>, None)))"

definition OnSessionClosed ::
  "OsLib \<Rightarrow> DefaultSessionManager \<Rightarrow> string \<Rightarrow> fs_call list \<times> string option" where
  "OnSessionClosed os mng sessionKey =
     (let p = filePath os mng sessionKey in
      case osRemove os p of
        Some err \<Rightarrow> ([OsRemove p], Some (''Unexpected error during session destruction: '' @ err))
      | None \<Rightarrow> ([OsRemove p], None))"

text \<open>
  A sample file system over a list of files (path and contents), to evaluate the manager.
  Its JSON decoder reads the creation time from the first byte and accepts any non-empty
  content.
\<close>

definition sampleOs :: "(string \<times> bytes) list \<Rightarrow> OsLib" where
  "sampleOs files =
     \<lparr>filepathJoin = (\<lambda>dir name. dir @ ''/'' @ name),
      osStat = (\<lambda>p. case map_of files p of None \<Rightarrow> StatNotExist | Some c \<Rightarrow> StatOk),
      ioutilReadFile = (\<lambda>p. case map_of files p of None \<Rightarrow> Inl ''no such file'' | Some c \<Rightarrow> Inr c),
      ioutilWriteFile = (\<lambda>p d m. None),
      osRemove = (\<lambda>p. case map_of files p of None \<Rightarrow> Some ''no such file'' | Some c \<Rightarrow> None),
      jsonUnmarshalSessionFile =
        (\<lambda>bs. case bs of [] \<Rightarrow> Inl ''unexpected end of JSON input''
              | b # r \<Rightarrow> Inr \<lparr>fileCreation = uint b, fileInfo = None\<rparr>),
      jsonMarshalSessionFile = (\<lambda>f. Inr [word_of_int (fileCreation f)])\<rparr>"

definition sampleManager :: DefaultSessionManager where
  "sampleManager = \<lparr>path = ''wwrsess''\<rparr>"


section \<open>Request frames on the server\<close>

text \<open>
  The message codec (the message module) and the server's reading loop are not among the
  sources; only a test of their behaviour is (TestProtocolViolation). The definitions of
  this section follow the spec's description of the frame format.
\<close>

record Request =
  reqIdent :: bytes
  reqName :: bytes
  reqPayload :: bytes

text \<open>
  Modelled from the spec: the parser of a binary request frame, which is missing from the
  sources. A request frame is \<^verbatim>\<open>[kind][reqId:8][nameLen:1][name:nameLen][payload:...]\<close>;
  a name length that exceeds the number of remaining bytes is a protocol violation
  (\<open>None\<close>).
\<close>

definition parseRequestBinary :: "bytes \<Rightarrow> Request option" where
  "parseRequestBinary message =
     (if length message < 10 then None
      else
        let nameLen = unat (message ! 9);
            remaining = length message - 10
        in if remaining < nameLen then None
           else Some \<lparr>reqIdent = take 8 (drop 1 message),
                      reqName = take nameLen (drop 10 message),
                      reqPayload = drop (10 + nameLen) message\<rparr>)"

text \<open>
  Modelled from the spec: the recovery of the request identifier of a frame that failed to
  parse, which is missing from the sources. The identifier is the eight bytes after the
  tag; a frame shorter than nine bytes has none.
\<close>

definition recoverRequestIdentifier :: "bytes \<Rightarrow> bytes option" where
  "recoverRequestIdentifier message =
     (if length message < 9 then None else Some (take 8 (drop 1 message)))"

text \<open>
  Modelled from the spec: the protocol-error reply \<^verbatim>\<open>[MsgReplyProtocolError][reqId:8]\<close>,
  without payload, whose construction is missing from the sources. The server produces it
  when a received frame fails to parse but carries a recoverable request identifier;
  otherwise the frame is dropped (\<open>None\<close>).
\<close>

definition protocolErrorReply :: "(MsgKind \<Rightarrow> byte) \<Rightarrow> bytes \<Rightarrow> bytes option" where
  "protocolErrorReply tg message =
     (case recoverRequestIdentifier message of
        None \<Rightarrow> None
      | Some reqId \<Rightarrow> Some (tg MsgReplyProtocolError # reqId))"

text \<open>
  Modelled from the spec: the server's handling of a frame tagged \<^verbatim>\<open>MsgRequestBinary\<close>,
  which is missing from the sources. The reply written is that of the request handler
  \<open>onRequest\<close> when the frame parses, and the protocol-error reply otherwise (\<open>None\<close>:
  nothing is written). Frames of other kinds are not modelled.
\<close>

definition serveBinaryRequest ::
  "(MsgKind \<Rightarrow> byte) \<Rightarrow> (Request \<Rightarrow> bytes) \<Rightarrow> bytes \<Rightarrow> bytes option" where
  "serveBinaryRequest tg onRequest message =
     (if message = [] \<or> hd message \<noteq> tg MsgRequestBinary then None
      else
        (case parseRequestBinary message of
           Some req \<Rightarrow> Some (onRequest req)
         | None \<Rightarrow> protocolErrorReply tg message))"


section \<open>Outbound operations of the client\<close>

text \<open>
  The client's \<^verbatim>\<open>RestoreSession\<close>, \<^verbatim>\<open>Request\<close> and \<^verbatim>\<open>Signal\<close> and its connection
  handling are not among the sources; only tests that call them are. The definitions of
  this section follow the spec's description of the client core. The model keeps the
  frames written to the transport (\<open>wire\<close>) and the time spent waiting (\<open>waited\<close>).
\<close>

datatype OptionToggle = OptEnabled | OptDisabled

datatype Status = StatDisconnected | StatConnecting | StatConnected

record Options =
  Autoconnect :: OptionToggle
  ReconnectionInterval :: nat
  DefaultRequestTimeout :: nat

datatype outbound =
    OutRequest bytes Payload
  | OutSignal bytes Payload
  | OutRestoreSession bytes

record ApiClient =
  status :: Status
  options :: Options
  mirror :: "Session option"
  wire :: "outbound list"
  waited :: nat

datatype restore_result = RestoreOk | RestoreFailed wwr_error | RestoreUndecodable string

text \<open>
  Modelled from the spec: the client constructor, which is missing from the sources. A
  new client is disconnected, has no session and has sent nothing.
\<close>

definition NewClient :: "Options \<Rightarrow> ApiClient" where
  "NewClient opts =
     \<lparr>status = StatDisconnected, options = opts, mirror = None, wire = [], waited = 0\<rparr>"

text \<open>
  Modelled from the spec: the connect policy, which is missing from the sources. When
  autoconnect is enabled, an outbound operation on a client that is not connected triggers
  \<^verbatim>\<open>Connect()\<close> up to the request's deadline, waiting \<open>ReconnectionInterval\<close> between
  attempts; when disabled, operations on a disconnected client fail immediately with
  \<open>DisconnectedErr\<close>. Whether and when an attempt succeeds is decided by the network:
  \<open>connectWithin\<close> stands for the reconnection loop and returns the client connected,
  with the time it waited added, or the failure.
\<close>

definition tryAutoconnect ::
  "(ApiClient \<Rightarrow> nat \<Rightarrow> wwr_error + ApiClient) \<Rightarrow> ApiClient \<Rightarrow> nat \<Rightarrow> wwr_error + ApiClient"
  where
  "tryAutoconnect connectWithin clt timeout =
     (if status clt = StatConnected then Inr clt
      else if Autoconnect (options clt) = OptDisabled then Inl DisconnectedErr
      else connectWithin clt timeout)"

text \<open>
  Modelled from the spec: the common start of every outbound operation (request, restore,
  signal), which is missing from the sources: the connect policy first, then the frame is
  written to the transport.
\<close>

definition sendOutbound ::
  "(ApiClient \<Rightarrow> nat \<Rightarrow> wwr_error + ApiClient) \<Rightarrow> ApiClient \<Rightarrow> outbound \<Rightarrow>
     wwr_error + ApiClient" where
  "sendOutbound connectWithin clt out =
     (case tryAutoconnect connectWithin clt (DefaultRequestTimeout (options clt)) of
        Inl err \<Rightarrow> Inl err
      | Inr c \<Rightarrow> Inr (c\<lparr>wire := wire c @ [out]\<rparr>))"

text \<open>
  Modelled from the spec: the client's \<^verbatim>\<open>Request\<close>, which is missing from the sources.
  \<open>roundTrip\<close> stands for the terminal event of the request: the reply or the failure.
\<close>

definition Request ::
  "(ApiClient \<Rightarrow> nat \<Rightarrow> wwr_error + ApiClient) \<Rightarrow> (outbound \<Rightarrow> wwr_error + Payload) \<Rightarrow>
     ApiClient \<Rightarrow> bytes \<Rightarrow> Payload \<Rightarrow> (wwr_error + Payload) \<times> ApiClient" where
  "Request connectWithin roundTrip clt name payload =
     (case sendOutbound connectWithin clt (OutRequest name payload) of
        Inl err \<Rightarrow> (Inl err, clt)
      | Inr c \<Rightarrow> (roundTrip (OutRequest name payload), c))"

text \<open>
  Modelled from the spec: the client's \<^verbatim>\<open>Signal\<close>, which is missing from the sources: a
  one-way delivery with no reply.
\<close>

definition Signal ::
  "(ApiClient \<Rightarrow> nat \<Rightarrow> wwr_error + ApiClient) \<Rightarrow>
     ApiClient \<Rightarrow> bytes \<Rightarrow> Payload \<Rightarrow> wwr_error option \<times> ApiClient" where
  "Signal connectWithin clt name payload =
     (case sendOutbound connectWithin clt (OutSignal name payload) of
        Inl err \<Rightarrow> (Some err, clt)
      | Inr c \<Rightarrow> (None, c))"

text \<open>
  Modelled from the spec: the client's \<^verbatim>\<open>RestoreSession\<close>, which is missing from the
  sources. On a successful restore reply the client parses the JSON (\<open>decode\<close>) and
  publishes the session in its mirror.
\<close>

definition RestoreSession ::
  "(ApiClient \<Rightarrow> nat \<Rightarrow> wwr_error + ApiClient) \<Rightarrow> (outbound \<Rightarrow> wwr_error + Payload) \<Rightarrow>
     (bytes \<Rightarrow> string + Session) \<Rightarrow> ApiClient \<Rightarrow> bytes \<Rightarrow> restore_result \<times> ApiClient" where
  "RestoreSession connectWithin roundTrip decode clt sessionKey =
     (case sendOutbound connectWithin clt (OutRestoreSession sessionKey) of
        Inl err \<Rightarrow> (RestoreFailed err, clt)
      | Inr c \<Rightarrow>
          (case roundTrip (OutRestoreSession sessionKey) of
             Inl err \<Rightarrow> (RestoreFailed err, c)
           | Inr reply \<Rightarrow>
               (case decode (Data reply) of
                  Inl err \<Rightarrow> (RestoreUndecodable err, c)
                | Inr sess \<Rightarrow> (RestoreOk, c\<lparr>mirror := Some sess\<rparr>))))"

text \<open>
  A sample network for evaluation: the server is unreachable, so the reconnection loop
  gives up at the deadline, and no request is ever answered.
\<close>

definition unreachable :: "ApiClient \<Rightarrow> nat \<Rightarrow> wwr_error + ApiClient" where
  "unreachable clt timeout = Inl TimeoutErr"

definition noAnswer :: "outbound \<Rightarrow> wwr_error + Payload" where
  "noAnswer out = Inl TimeoutErr"


section \<open>Properties of the client's dispatcher\<close>

lemma sampleTags_inj: "inj sampleTags"
proof (rule injI)
  fix x y
  assume "sampleTags x = sampleTags y"
  then show "x = y"
    by (cases x; cases y; simp)
qed

lemma sampleTags_200: "200 \<notin> range sampleTags"
proof
  assume "200 \<in> range sampleTags"
  then obtain k where "sampleTags k = 200" by auto
  then show False by (cases k) simp_all
qed

lemma handleMessage_nonempty: "message \<noteq> [] \<Longrightarrow> \<not> length message < 1"
  by (cases message) simp_all

lemma dispatchReply_ok:
  "off \<le> length message \<Longrightarrow> 9 \<le> length message \<Longrightarrow>
   dispatchReply clt message enc off =
     Returned (clt\<lparr>calls := calls clt @
       [Fulfill (take 8 (drop 1 message)) \<lparr>Encoding = enc, Data = drop off message\<rparr>]\<rparr>)"
  by (simp add: dispatchReply_def extractMessageIdentifier_def sliceFrom_def handleReply_def
      record_call_def)

text \<open>
  C3: for every well-formed reply frame the client dispatches, the payload starts at
  offset 9 for \<open>ReplyBinary\<close> and \<open>ReplyUtf8\<close> and at offset 10 for \<open>ReplyUtf16\<close> (one
  pad byte after the eight bytes of the request identifier), and the request manager is
  asked to fulfil the request with a payload whose encoding is that of the frame kind.
  A frame is well-formed when it is long enough for its slice expressions: nine bytes,
  ten for \<open>ReplyUtf16\<close>. Nothing else happens: the session mirror is unchanged and the
  call to \<^verbatim>\<open>Fulfill\<close> is the only call made.
\<close>

theorem reply_payload_offsets:
  assumes "inj tg"
  shows "(hd message = tg MsgReplyBinary \<and> 9 \<le> length message \<longrightarrow>
            handleMessage tg js clt message =
              Returned (clt\<lparr>calls := calls clt @
                [Fulfill (take 8 (drop 1 message))
                   \<lparr>Encoding = EncodingBinary, Data = drop 9 message\<rparr>]\<rparr>)) \<and>
         (hd message = tg MsgReplyUtf8 \<and> 9 \<le> length message \<longrightarrow>
            handleMessage tg js clt message =
              Returned (clt\<lparr>calls := calls clt @
                [Fulfill (take 8 (drop 1 message))
                   \<lparr>Encoding = EncodingUtf8, Data = drop 9 message\<rparr>]\<rparr>)) \<and>
         (hd message = tg MsgReplyUtf16 \<and> 10 \<le> length message \<longrightarrow>
            handleMessage tg js clt message =
              Returned (clt\<lparr>calls := calls clt @
                [Fulfill (take 8 (drop 1 message))
                   \<lparr>Encoding = EncodingUtf16, Data = drop 10 message\<rparr>]\<rparr>))"
proof -
  have d: "\<And>a b. (tg a = tg b) = (a = b)" using assms by (simp add: inj_eq)
  show ?thesis
    unfolding handleMessage_def Let_def
    by (auto simp: d dispatchReply_ok)
qed

theorem reply_payload_offsets_witness:
  "handleMessage sampleTags sampleDecoders sampleClient [191, 1, 2, 3, 4, 5, 6, 7, 8, 97, 98] =
     Returned \<lparr>session = Some sampleSession,
       calls = [Fulfill [1, 2, 3, 4, 5, 6, 7, 8] \<lparr>Encoding = EncodingBinary, Data = [97, 98]\<rparr>]\<rparr> \<and>
   handleMessage sampleTags sampleDecoders sampleClient [192, 1, 2, 3, 4, 5, 6, 7, 8, 97, 98] =
     Returned \<lparr>session = Some sampleSession,
       calls = [Fulfill [1, 2, 3, 4, 5, 6, 7, 8] \<lparr>Encoding = EncodingUtf8, Data = [97, 98]\<rparr>]\<rparr> \<and>
   handleMessage sampleTags sampleDecoders sampleClient [193, 1, 2, 3, 4, 5, 6, 7, 8, 0, 0, 115] =
     Returned \<lparr>session = Some sampleSession,
       calls = [Fulfill [1, 2, 3, 4, 5, 6, 7, 8] \<lparr>Encoding = EncodingUtf16, Data = [0, 115]\<rparr>]\<rparr>"
  using
    reply_payload_offsets[OF sampleTags_inj,
      of "[191, 1, 2, 3, 4, 5, 6, 7, 8, 97, 98]" sampleDecoders sampleClient]
    reply_payload_offsets[OF sampleTags_inj,
      of "[192, 1, 2, 3, 4, 5, 6, 7, 8, 97, 98]" sampleDecoders sampleClient]
    reply_payload_offsets[OF sampleTags_inj,
      of "[193, 1, 2, 3, 4, 5, 6, 7, 8, 0, 0, 115]" sampleDecoders sampleClient]
  by (simp add: sampleClient_def)

text \<open>
  A \<open>ReplyUtf16\<close> frame of exactly nine bytes is not well-formed: it has an identifier
  but \<^verbatim>\<open>message[10:]\<close> is out of range.
\<close>

lemma utf16_reply_of_nine_bytes_panics:
  assumes "inj tg" and "hd message = tg MsgReplyUtf16" and "length message = 9"
  shows "handleMessage tg js clt message = Panicked SliceBoundsOutOfRange clt"
proof -
  have d: "\<And>a b. (tg a = tg b) = (a = b)" using assms(1) by (simp add: inj_eq)
  show ?thesis
    unfolding handleMessage_def Let_def using assms(2,3)
    by (simp add: d dispatchReply_def extractMessageIdentifier_def sliceFrom_def)
qed

text \<open>
  C8: for every inbound frame whose first byte is not one of the known message tags, the
  dispatcher logs a warning and does nothing else: no request is fulfilled or failed, no
  hook is invoked and the session mirror is unchanged. A frame of length zero is dropped
  without any effect. The result is the client as it was, with the one warning appended
  to its calls, or the client itself for the empty frame.
\<close>

theorem unknown_tag_dropped:
  assumes "message = [] \<or> hd message \<notin> range tg"
  shows "handleMessage tg js clt message =
           Returned (if message = [] then clt
                     else clt\<lparr>calls := calls clt @ [WarningLogPrintf (hd message)]\<rparr>)"
proof (cases "message = []")
  case True
  then show ?thesis by (simp add: handleMessage_def)
next
  case False
  then have ne: "\<And>k. hd message \<noteq> tg k" using assms by auto
  show ?thesis
    unfolding handleMessage_def Let_def record_call_def
    using False handleMessage_nonempty[OF False] by (simp add: ne)
qed

theorem unknown_tag_dropped_witness:
  "hd [200] \<notin> range sampleTags \<and>
   handleMessage sampleTags sampleDecoders sampleClient [200] =
     Returned \<lparr>session = Some sampleSession, calls = [WarningLogPrintf 200]\<rparr> \<and>
   handleMessage sampleTags sampleDecoders sampleClient [] = Returned sampleClient"
  using unknown_tag_dropped[of "[200]" sampleTags sampleDecoders sampleClient]
    unknown_tag_dropped[of "[]" sampleTags sampleDecoders sampleClient] sampleTags_200
  by (simp add: sampleClient_def)

text \<open>
  C10: if the payload of a \<open>MsgSessionCreated\<close> frame fails to parse as a JSON session
  object, the client's session field keeps its previous value and the \<open>OnSessionCreated\<close>
  hook is not invoked; the parse error only produces a log entry. The calls made are
  exactly the one error log.
\<close>

theorem session_created_parse_failure:
  assumes "jsonUnmarshalSession js payload = Inl err"
  shows "session (handleSessionCreated js clt payload) = session clt \<and>
         calls (handleSessionCreated js clt payload) =
           calls clt @ [ErrorLogPrintf (''Failed unmarshalling session object: '' @ err)]"
  using assms by (simp add: handleSessionCreated_def record_call_def)

theorem session_created_parse_failure_witness:
  "jsonUnmarshalSession sampleDecoders [1, 2] = Inl ''invalid character'' \<and>
   session (handleSessionCreated sampleDecoders sampleClient [1, 2]) = Some sampleSession \<and>
   calls (handleSessionCreated sampleDecoders sampleClient [1, 2]) =
     [ErrorLogPrintf ''Failed unmarshalling session object: invalid character'']"
  using session_created_parse_failure[of sampleDecoders "[1, 2]" "''invalid character''"
      sampleClient]
  by (simp add: sampleDecoders_def sampleClient_def)

text \<open>The same at the level of the dispatcher, for the frame as it is received.\<close>

lemma session_created_frame_parse_failure:
  assumes "inj tg" and "message \<noteq> []" and "hd message = tg MsgSessionCreated"
    and "jsonUnmarshalSession js (drop 1 message) = Inl err"
  shows "handleMessage tg js clt message =
           Returned (clt\<lparr>calls := calls clt @
             [ErrorLogPrintf (''Failed unmarshalling session object: '' @ err)]\<rparr>)"
proof -
  have d: "\<And>a b. (tg a = tg b) = (a = b)" using assms(1) by (simp add: inj_eq)
  show ?thesis
    unfolding handleMessage_def Let_def
    using handleMessage_nonempty[OF assms(2)] assms(3,4)
    by (simp add: d handleSessionCreated_def record_call_def)
qed


section \<open>Properties of session restoration on the server\<close>

text \<open>
  The guard of the connection cap in mathematical integers. For a non-negative count the
  wrapping addition and the conversion to \<^verbatim>\<open>uint\<close> are exact: the count is below
  \<open>2 ^ 63\<close>, so the count plus one fits into 64 unsigned bits.
\<close>

lemma uint_succ_of_nonneg:
  fixes n :: "64 word"
  assumes "word_sle 0 n"
  shows "uint (n + 1) = sint n + 1"
proof -
  have nonneg: "0 \<le> sint n" using assms by (simp add: word_sle_eq)
  have "sint n < 2 ^ (LENGTH(64) - 1)" by (rule sint_lt)
  then have lt: "sint n < 2 ^ 63" by simp
  have "n + 1 = word_of_int (sint n + 1)" by simp
  then have "uint (n + 1) = (sint n + 1) mod 2 ^ 64"
    by (simp only: uint_word_of_int) simp
  also have "\<dots> = sint n + 1" using nonneg lt by simp
  finally show ?thesis .
qed

lemma capReached_iff:
  "capReached srv n \<longleftrightarrow>
     0 \<le> sint n \<and> 0 < uint (maxConns srv) \<and> uint (maxConns srv) < sint n + 1"
proof (cases "word_sle 0 n")
  case True
  then show ?thesis
    using uint_succ_of_nonneg[OF True]
    by (simp add: capReached_def word_sle_eq word_less_def)
next
  case False
  then show ?thesis by (simp add: capReached_def word_sle_eq)
qed

text \<open>The handler, path by path.\<close>

lemma restore_disabled:
  "\<not> sessionsEnabled srv \<Longrightarrow>
   handleSessionRestore env srv message s = Returned ([FailMsg (Some SessionsDisabledErr)], s)"
  by (simp add: handleSessionRestore_def)

lemma restore_cap:
  "sessionsEnabled srv \<Longrightarrow>
   capReached srv (sessionConnectionsNum env s (string_of_bytes (Data (msgPayload message)))) \<Longrightarrow>
   handleSessionRestore env srv message s = Returned ([FailMsg (Some MaxSessConnsReachedErr)], s)"
  by (simp add: handleSessionRestore_def)

lemma restore_lookup_error:
  "sessionsEnabled srv \<Longrightarrow>
   \<not> capReached srv (sessionConnectionsNum env s (string_of_bytes (Data (msgPayload message)))) \<Longrightarrow>
   sessionManagerLookup env (string_of_bytes (Data (msgPayload message))) = (r, Some err) \<Longrightarrow>
   handleSessionRestore env srv message s =
     Returned ([CallOnSessionLookup (string_of_bytes (Data (msgPayload message))), FailMsg None,
       ErrorLog ''CRITICAL: Session search handler failed: %s'' [LogString err]], s)"
  by (simp add: handleSessionRestore_def Let_def split: option.splits)

lemma restore_not_found:
  "sessionsEnabled srv \<Longrightarrow>
   \<not> capReached srv (sessionConnectionsNum env s (string_of_bytes (Data (msgPayload message)))) \<Longrightarrow>
   sessionManagerLookup env (string_of_bytes (Data (msgPayload message))) = (None, None) \<Longrightarrow>
   handleSessionRestore env srv message s =
     Returned ([CallOnSessionLookup (string_of_bytes (Data (msgPayload message))),
       FailMsg (Some SessNotFoundErr)], s)"
  by (simp add: handleSessionRestore_def Let_def)

lemma restore_marshal_error:
  "sessionsEnabled srv \<Longrightarrow>
   \<not> capReached srv (sessionConnectionsNum env s (string_of_bytes (Data (msgPayload message)))) \<Longrightarrow>
   sessionManagerLookup env (string_of_bytes (Data (msgPayload message))) = (Some result, None) \<Longrightarrow>
   jsonMarshal env (encodedSessionObj (string_of_bytes (Data (msgPayload message))) result) =
     Inl err \<Longrightarrow>
   handleSessionRestore env srv message s =
     Returned ([CallOnSessionLookup (string_of_bytes (Data (msgPayload message))), FailMsg None,
       ErrorLog ''Couldn't encode session object (%v): %s''
         [LogObject (encodedSessionObj (string_of_bytes (Data (msgPayload message))) result),
          LogString err]], s)"
  by (simp add: handleSessionRestore_def Let_def)

lemma restore_passed:
  "sessionsEnabled srv \<Longrightarrow>
   \<not> capReached srv (sessionConnectionsNum env s (string_of_bytes (Data (msgPayload message)))) \<Longrightarrow>
   sessionManagerLookup env (string_of_bytes (Data (msgPayload message))) = (Some result, None) \<Longrightarrow>
   jsonMarshal env (encodedSessionObj (string_of_bytes (Data (msgPayload message))) result) =
     Inr enc \<Longrightarrow>
   handleSessionRestore env srv message s =
     (let key = string_of_bytes (Data (msgPayload message));
          sess = restoredSession srv key result;
          reg = register env (setSession env sess s)
      in case fst reg of
           Some err \<Rightarrow>
             Panicked (PanicError
                ''The number of concurrent session connections was unexpectedly exceeded'')
               ([CallOnSessionLookup key, CallSetSession sess, CallRegister], snd reg)
         | None \<Rightarrow>
             Returned ([CallOnSessionLookup key, CallSetSession sess, CallRegister,
               FulfillMsg EncodingUtf8 enc], snd reg))"
  by (simp add: handleSessionRestore_def Let_def case_prod_beta)

lemma replies_of_restore:
  "replies_of (handleSessionRestore env srv message s) =
     (let key = string_of_bytes (Data (msgPayload message)) in
      if \<not> sessionsEnabled srv then [FailMsg (Some SessionsDisabledErr)]
      else if capReached srv (sessionConnectionsNum env s key)
        then [FailMsg (Some MaxSessConnsReachedErr)]
      else if snd (sessionManagerLookup env key) \<noteq> None then [FailMsg None]
      else
        (case fst (sessionManagerLookup env key) of
           None \<Rightarrow> [FailMsg (Some SessNotFoundErr)]
         | Some result \<Rightarrow>
             (case jsonMarshal env (encodedSessionObj key result) of
                Inl err \<Rightarrow> [FailMsg None]
              | Inr encodedSession \<Rightarrow>
                  if fst (register env (setSession env (restoredSession srv key result) s)) = None
                  then [FulfillMsg EncodingUtf8 encodedSession]
                  else [])))"
proof -
  obtain r e where
    lk: "sessionManagerLookup env (string_of_bytes (Data (msgPayload message))) = (r, e)"
    by (cases "sessionManagerLookup env (string_of_bytes (Data (msgPayload message)))")
  show ?thesis
  proof (cases "sessionsEnabled srv")
    case False
    then show ?thesis by (simp add: restore_disabled replies_of_def)
  next
    case en: True
    show ?thesis
    proof (cases "capReached srv
        (sessionConnectionsNum env s (string_of_bytes (Data (msgPayload message))))")
      case True
      then show ?thesis using en by (simp add: restore_cap replies_of_def)
    next
      case nc: False
      show ?thesis
      proof (cases e)
        case (Some err)
        then show ?thesis using en nc lk restore_lookup_error[OF en nc, of r err]
          by (simp add: replies_of_def)
      next
        case None
        show ?thesis
        proof (cases r)
          case rn: None
          then show ?thesis using en nc lk None restore_not_found[OF en nc]
            by (simp add: replies_of_def)
        next
          case (Some result)
          note rs = this
          show ?thesis
          proof (cases "jsonMarshal env
              (encodedSessionObj (string_of_bytes (Data (msgPayload message))) result)")
            case (Inl err)
            then show ?thesis using en nc lk None rs restore_marshal_error[OF en nc _ Inl]
              by (simp add: replies_of_def)
          next
            case (Inr enc)
            then show ?thesis using en nc lk None rs restore_passed[OF en nc _ Inr]
              by (simp add: replies_of_def Let_def split: option.splits)
          qed
        qed
      qed
    qed
  qed
qed

lemma restore_trace_after_cap:
  assumes "sessionsEnabled srv"
    and "\<not> capReached srv
          (sessionConnectionsNum env s (string_of_bytes (Data (msgPayload message))))"
  shows "take 1 (trace_of (handleSessionRestore env srv message s)) =
           [CallOnSessionLookup (string_of_bytes (Data (msgPayload message)))]"
  using assms
  by (simp add: handleSessionRestore_def Let_def case_prod_beta split: option.splits sum.splits)

text \<open>Facts about the sample instance.\<close>

lemma sample_string_of_bytes: "string_of_bytes [107, 49] = ''k1''"
  by code_simp

lemma sampleServer_sel:
  "sessionsEnabled (sampleServer e c) = e"
  "maxConns (sampleServer e c) = c"
  "sessionInfoParser (sampleServer e c) = None"
  by (simp_all add: sampleServer_def)

lemma sample_cap_1: "capReached (sampleServer True 1) 1"
  by (simp add: capReached_iff sampleServer_def)

lemma sample_cap_2: "\<not> capReached (sampleServer True 2) 1"
  by (simp add: capReached_iff sampleServer_def)

text \<open>
  C1 (amended): for every \<open>MsgRestoreSession\<close> message the reply is determined in this
  order. If sessions are disabled the message is failed with \<open>SessionsDisabledErr\<close>; else
  if the connection cap of the session is reached it is failed with
  \<open>MaxSessConnsReachedErr\<close>; else if the lookup \<open>OnSessionLookup\<close> returns a non-nil error
  it is failed with the internal error reply; else if the lookup returns a null session it
  is failed with \<open>SessNotFoundErr\<close>; else if the JSON encoding of the session fails it is
  failed with the internal error reply; else, when the registration of the connection
  succeeds, the server replies with a \<open>MsgReplyUtf8\<close> payload that carries the
  JSON-encoded session (a failing registration panics and no reply is written).
\<close>

theorem restore_outcome_order:
  "replies_of (handleSessionRestore env srv message s) =
     (let key = string_of_bytes (Data (msgPayload message)) in
      if \<not> sessionsEnabled srv then [FailMsg (Some SessionsDisabledErr)]
      else if capReached srv (sessionConnectionsNum env s key)
        then [FailMsg (Some MaxSessConnsReachedErr)]
      else if snd (sessionManagerLookup env key) \<noteq> None then [FailMsg None]
      else
        (case fst (sessionManagerLookup env key) of
           None \<Rightarrow> [FailMsg (Some SessNotFoundErr)]
         | Some result \<Rightarrow>
             (case jsonMarshal env (encodedSessionObj key result) of
                Inl err \<Rightarrow> [FailMsg None]
              | Inr encodedSession \<Rightarrow>
                  if fst (register env (setSession env (restoredSession srv key result) s)) = None
                  then [FulfillMsg EncodingUtf8 encodedSession]
                  else [])))"
  by (rule replies_of_restore)

theorem restore_outcome_order_witness:
  "replies_of (handleSessionRestore sampleEnv (sampleServer True 2) (restoreMessage [107, 49])
     (None, [(''k1'', 1)])) = [FulfillMsg EncodingUtf8 [107, 49]]"
  using restore_outcome_order[of sampleEnv "sampleServer True 2" "restoreMessage [107, 49]"
      "(None, [(''k1'', 1)])"] sample_cap_2
  by (simp add: sample_string_of_bytes restoreMessage_def sampleEnv_def sampleConnectionsNum_def
      sampleLookup_def sampleMarshal_def sampleRegister_def restoredSession_def
      encodedSessionObj_def sampleServer_sel Let_def)

text \<open>
  C1 as stated, without the connection cap, fails: with sessions enabled, a lookup that
  finds the session without error and an encoding that succeeds, the reply is still not
  the \<open>MsgReplyUtf8\<close> payload when the session already has as many connections as the
  cap allows (here one connection and a cap of one). The message is failed with
  \<open>MaxSessConnsReachedErr\<close> and the lookup is not even called.
\<close>

theorem restore_outcome_order_counterexample:
  "sessionsEnabled (sampleServer True 1) \<and>
   sessionManagerLookup sampleEnv ''k1'' =
     (Some \<lparr>resCreation = 5, resLastLookup = 7, resInfo = Some ''{}''\<rparr>, None) \<and>
   jsonMarshal sampleEnv
     (encodedSessionObj ''k1'' \<lparr>resCreation = 5, resLastLookup = 7, resInfo = Some ''{}''\<rparr>) =
     Inr [107, 49] \<and>
   handleSessionRestore sampleEnv (sampleServer True 1) (restoreMessage [107, 49])
     (None, [(''k1'', 1)]) =
     Returned ([FailMsg (Some MaxSessConnsReachedErr)], (None, [(''k1'', 1)]))"
  using sample_cap_1
  by (simp add: handleSessionRestore_def sample_string_of_bytes restoreMessage_def sampleEnv_def
      sampleConnectionsNum_def sampleLookup_def sampleMarshal_def encodedSessionObj_def
      sampleServer_sel)

text \<open>
  C4: when the handler of a session restoration consults the registry, that is, on a
  server with sessions enabled, it replies \<open>MaxSessConnsReachedErr\<close> exactly when the
  connection count of the key is non-negative, the configured cap is greater than zero and
  the count plus one exceeds the cap. The comparison is stated on the integers the words
  stand for: the count as a signed value, the cap as an unsigned one. In particular, when
  the registry reports \<open>-1\<close> (no bucket for the key) the check is passed and the lookup
  is the next call.
\<close>

theorem cap_check_exact:
  assumes "sessionsEnabled srv"
  shows "(replies_of (handleSessionRestore env srv message s) =
            [FailMsg (Some MaxSessConnsReachedErr)] \<longleftrightarrow>
          0 \<le> sint (sessionConnectionsNum env s (string_of_bytes (Data (msgPayload message)))) \<and>
          0 < uint (maxConns srv) \<and>
          uint (maxConns srv) <
            sint (sessionConnectionsNum env s (string_of_bytes (Data (msgPayload message)))) + 1) \<and>
         (sessionConnectionsNum env s (string_of_bytes (Data (msgPayload message))) = - 1 \<longrightarrow>
            take 1 (trace_of (handleSessionRestore env srv message s)) =
              [CallOnSessionLookup (string_of_bytes (Data (msgPayload message)))])"
proof (intro conjI impI)
  show "replies_of (handleSessionRestore env srv message s) =
            [FailMsg (Some MaxSessConnsReachedErr)] \<longleftrightarrow>
          0 \<le> sint (sessionConnectionsNum env s (string_of_bytes (Data (msgPayload message)))) \<and>
          0 < uint (maxConns srv) \<and>
          uint (maxConns srv) <
            sint (sessionConnectionsNum env s (string_of_bytes (Data (msgPayload message)))) + 1"
    unfolding capReached_iff[symmetric] replies_of_restore Let_def
    using assms by (simp split: option.splits sum.splits)
next
  assume m: "sessionConnectionsNum env s (string_of_bytes (Data (msgPayload message))) = - 1"
  have "\<not> capReached srv (- 1)" by (simp add: capReached_iff)
  then show "take 1 (trace_of (handleSessionRestore env srv message s)) =
              [CallOnSessionLookup (string_of_bytes (Data (msgPayload message)))]"
    using restore_trace_after_cap[OF assms, of env s message] m by simp
qed

theorem cap_check_exact_witness:
  "sessionsEnabled (sampleServer True 1) \<and>
   sint (sessionConnectionsNum sampleEnv (None, [(''k1'', 1)]) ''k1'') = 1 \<and>
   uint (maxConns (sampleServer True 1)) = 1 \<and>
   replies_of (handleSessionRestore sampleEnv (sampleServer True 1) (restoreMessage [107, 49])
     (None, [(''k1'', 1)])) = [FailMsg (Some MaxSessConnsReachedErr)] \<and>
   sessionConnectionsNum sampleEnv (None, []) ''k1'' = - 1 \<and>
   take 1 (trace_of (handleSessionRestore sampleEnv (sampleServer True 1)
     (restoreMessage [107, 49]) (None, []))) = [CallOnSessionLookup ''k1'']"
  using
    cap_check_exact[where srv = "sampleServer True 1" and env = sampleEnv
      and s = "(None, [(''k1'', 1)])" and message = "restoreMessage [107, 49]"]
    cap_check_exact[where srv = "sampleServer True 1" and env = sampleEnv
      and s = "(None, [])" and message = "restoreMessage [107, 49]"]
  by (simp add: sample_string_of_bytes restoreMessage_def sampleEnv_def sampleConnectionsNum_def
      sampleServer_sel)

text \<open>
  C9 (amended): on every failing outcome (sessions disabled, connection cap reached,
  lookup error, session not found, failure of the JSON encoding) the handler returns
  without calling \<^verbatim>\<open>setSession\<close> or \<^verbatim>\<open>register\<close> and leaves the connection's session
  and the registry unchanged. \<^verbatim>\<open>setSession\<close> and \<^verbatim>\<open>register\<close> are invoked only when
  all of these checks have passed, in this order, after the lookup and before any reply.
  When the registration then succeeds the handler returns and the reply is the last call;
  when it fails the handler panics and writes no reply, and the state is the one that
  \<^verbatim>\<open>setSession\<close> and the failed \<^verbatim>\<open>register\<close> have left.
\<close>

theorem restore_mutations_after_checks:
  "let key = string_of_bytes (Data (msgPayload message));
       out = handleSessionRestore env srv message s;
       failing =
         (\<not> sessionsEnabled srv \<or> capReached srv (sessionConnectionsNum env s key) \<or>
          snd (sessionManagerLookup env key) \<noteq> None \<or>
          (case fst (sessionManagerLookup env key) of
             None \<Rightarrow> True
           | Some result \<Rightarrow> isl (jsonMarshal env (encodedSessionObj key result))))
   in (failing \<longrightarrow>
         returned out \<and> state_of out = s \<and> (\<forall>c \<in> set (trace_of out). \<not> mutating c)) \<and>
      (\<not> failing \<longrightarrow>
         (\<exists>result enc.
            sessionManagerLookup env key = (Some result, None) \<and>
            jsonMarshal env (encodedSessionObj key result) = Inr enc \<and>
            state_of out = snd (register env (setSession env (restoredSession srv key result) s)) \<and>
            (returned out \<longleftrightarrow>
               fst (register env (setSession env (restoredSession srv key result) s)) = None) \<and>
            trace_of out =
              [CallOnSessionLookup key, CallSetSession (restoredSession srv key result),
               CallRegister] @
              (if returned out then [FulfillMsg EncodingUtf8 enc] else [])))"
proof -
  define key where "key = string_of_bytes (Data (msgPayload message))"
  obtain r e where lk: "sessionManagerLookup env key = (r, e)"
    by (cases "sessionManagerLookup env key")
  show ?thesis
  proof (cases "sessionsEnabled srv")
    case False
    then show ?thesis by (simp add: restore_disabled Let_def)
  next
    case en: True
    show ?thesis
    proof (cases "capReached srv (sessionConnectionsNum env s key)")
      case True
      then show ?thesis using en restore_cap[OF en, of env s message]
        by (simp add: Let_def key_def)
    next
      case nc: False
      show ?thesis
      proof (cases e)
        case (Some err)
        then show ?thesis
          using en nc lk restore_lookup_error[OF en nc[unfolded key_def], of r err]
          by (simp add: Let_def key_def)
      next
        case None
        show ?thesis
        proof (cases r)
          case rn: None
          then show ?thesis
            using en nc lk None restore_not_found[OF en nc[unfolded key_def]]
            by (simp add: Let_def key_def)
        next
          case (Some result)
          note rs = this
          show ?thesis
          proof (cases "jsonMarshal env (encodedSessionObj key result)")
            case (Inl err)
            then show ?thesis
              using en nc lk None rs
                restore_marshal_error[OF en nc[unfolded key_def], of result err]
              by (simp add: Let_def key_def)
          next
            case (Inr enc)
            then show ?thesis
              using en nc lk None rs restore_passed[OF en nc[unfolded key_def], of result enc]
              by (simp add: Let_def key_def split: option.splits)
          qed
        qed
      qed
    qed
  qed
qed

theorem restore_mutations_after_checks_witness:
  "capReached (sampleServer True 1)
     (sessionConnectionsNum sampleEnv (None, [(''k1'', 1)]) ''k1'') \<and>
   handleSessionRestore sampleEnv (sampleServer True 1) (restoreMessage [107, 49])
     (None, [(''k1'', 1)]) =
     Returned ([FailMsg (Some MaxSessConnsReachedErr)], (None, [(''k1'', 1)])) \<and>
   \<not> capReached (sampleServer True 2)
     (sessionConnectionsNum sampleEnv (None, [(''k1'', 1)]) ''k1'') \<and>
   handleSessionRestore sampleEnv (sampleServer True 2) (restoreMessage [107, 49])
     (None, [(''k1'', 1)]) =
     Returned
       ([CallOnSessionLookup ''k1'',
         CallSetSession \<lparr>Key = ''k1'', Creation = 5, LastLookup = 7, Info = None\<rparr>,
         CallRegister, FulfillMsg EncodingUtf8 [107, 49]],
        (Some \<lparr>Key = ''k1'', Creation = 5, LastLookup = 7, Info = None\<rparr>, [(''k1'', 2)])) \<and>
   fst (register racedEnv
     (setSession racedEnv \<lparr>Key = ''k1'', Creation = 5, LastLookup = 7, Info = None\<rparr>
        (None, [(''k1'', 1)]))) \<noteq> None \<and>
   trace_of (handleSessionRestore racedEnv (sampleServer True 2) (restoreMessage [107, 49])
     (None, [(''k1'', 1)])) =
     [CallOnSessionLookup ''k1'',
      CallSetSession \<lparr>Key = ''k1'', Creation = 5, LastLookup = 7, Info = None\<rparr>,
      CallRegister]"
  using
    restore_mutations_after_checks[where message = "restoreMessage [107, 49]"
      and env = sampleEnv and srv = "sampleServer True 1" and s = "(None, [(''k1'', 1)])"]
    restore_mutations_after_checks[where message = "restoreMessage [107, 49]"
      and env = sampleEnv and srv = "sampleServer True 2" and s = "(None, [(''k1'', 1)])"]
    restore_mutations_after_checks[where message = "restoreMessage [107, 49]"
      and env = racedEnv and srv = "sampleServer True 2" and s = "(None, [(''k1'', 1)])"]
    sample_cap_1 sample_cap_2
  by (simp add: handleSessionRestore_def sample_string_of_bytes restoreMessage_def racedEnv_def
      sampleEnv_def sampleConnectionsNum_def sampleLookup_def sampleMarshal_def
      sampleRegister_def restoredSession_def parsedSessInfo_def encodedSessionObj_def
      sampleServer_sel Let_def)

text \<open>
  C9 as stated, with the handler atomic and \<^verbatim>\<open>setSession\<close> and \<^verbatim>\<open>register\<close> invoked
  only on the success path, fails when the registration fails. None of the five failing
  outcomes occurs (sessions are enabled, the cap check passes, the lookup finds the
  session without error and the encoding succeeds), yet the handler does not succeed: it
  panics and writes no reply, after it has called \<^verbatim>\<open>setSession\<close> and \<^verbatim>\<open>register\<close> and
  has bound the session to the connection, which had none before.
\<close>

theorem restore_atomic_counterexample:
  "sessionsEnabled (sampleServer True 2) \<and>
   \<not> capReached (sampleServer True 2)
     (sessionConnectionsNum racedEnv (None, [(''k1'', 1)]) ''k1'') \<and>
   sessionManagerLookup racedEnv ''k1'' =
     (Some \<lparr>resCreation = 5, resLastLookup = 7, resInfo = Some ''{}''\<rparr>, None) \<and>
   jsonMarshal racedEnv
     (encodedSessionObj ''k1'' \<lparr>resCreation = 5, resLastLookup = 7, resInfo = Some ''{}''\<rparr>) =
     Inr [107, 49] \<and>
   handleSessionRestore racedEnv (sampleServer True 2) (restoreMessage [107, 49])
     (None, [(''k1'', 1)]) =
     Panicked
       (PanicError ''The number of concurrent session connections was unexpectedly exceeded'')
       ([CallOnSessionLookup ''k1'',
         CallSetSession \<lparr>Key = ''k1'', Creation = 5, LastLookup = 7, Info = None\<rparr>,
         CallRegister],
        (Some \<lparr>Key = ''k1'', Creation = 5, LastLookup = 7, Info = None\<rparr>, [(''k1'', 1)]))"
  using sample_cap_2
  by (simp add: handleSessionRestore_def sample_string_of_bytes restoreMessage_def racedEnv_def
      sampleEnv_def sampleConnectionsNum_def sampleLookup_def sampleMarshal_def
      restoredSession_def parsedSessInfo_def encodedSessionObj_def sampleServer_sel Let_def)


section \<open>Properties of the default session manager\<close>

lemma sampleOs_sel:
  "filepathJoin (sampleOs files) = (\<lambda>dir name. dir @ ''/'' @ name)"
  "osStat (sampleOs files) =
     (\<lambda>p. case map_of files p of None \<Rightarrow> StatNotExist | Some c \<Rightarrow> StatOk)"
  "ioutilReadFile (sampleOs files) =
     (\<lambda>p. case map_of files p of None \<Rightarrow> Inl ''no such file'' | Some c \<Rightarrow> Inr c)"
  "ioutilWriteFile (sampleOs files) = (\<lambda>p d m. None)"
  "jsonUnmarshalSessionFile (sampleOs files) =
     (\<lambda>bs. case bs of [] \<Rightarrow> Inl ''unexpected end of JSON input''
           | b # r \<Rightarrow> Inr \<lparr>fileCreation = uint b, fileInfo = None\<rparr>)"
  "jsonMarshalSessionFile (sampleOs files) = (\<lambda>f. Inr [word_of_int (fileCreation f)])"
  by (simp_all add: sampleOs_def)

text \<open>
  C7: for every key, \<^verbatim>\<open>OnSessionLookup\<close> of the default session manager resolves the
  file named \<open><key>.wwrsess\<close> in the manager's directory. It returns a null session and
  no error when that file does not exist. When the file exists, can be read and parses, it
  returns a session whose key is the key looked up and whose creation and info are those
  decoded from the file (its JSON fields \<open>c\<close> and \<open>i\<close>). Session files are written with
  mode \<open>0640\<close>: every write that \<^verbatim>\<open>WriteFile\<close> issues passes these permission bits,
  which are 416 in decimal.
\<close>

theorem default_manager_lookup:
  "filePath os mng key = filepathJoin os (path mng) (key @ ''.wwrsess'') \<and>
   (osStat os (filePath os mng key) = StatNotExist \<longrightarrow>
      OnSessionLookup os mng key = (None, None)) \<and>
   (osStat os (filePath os mng key) = StatOk \<and>
    ioutilReadFile os (filePath os mng key) = Inr contents \<and>
    jsonUnmarshalSessionFile os contents = Inr parsed \<longrightarrow>
      OnSessionLookup os mng key =
        (Some \<lparr>Key = key, Creation = fileCreation parsed, LastLookup = 0,
               Info = fileInfo parsed\<rparr>,
         None)) \<and>
   (\<forall>c \<in> set (fst (WriteFile os sessf target)).
      \<exists>encoded. jsonMarshalSessionFile os sessf = Inr encoded \<and>
        c = IoWriteFile target encoded perm_0640) \<and>
   perm_0640 = 416"
  by (auto simp: filePath_def OnSessionLookup_def Parse_def WriteFile_def perm_0640_def Let_def
      split: sum.splits option.splits)

theorem default_manager_lookup_witness:
  "osStat (sampleOs [(''wwrsess/k1.wwrsess'', [9])])
     (filePath (sampleOs [(''wwrsess/k1.wwrsess'', [9])]) sampleManager ''zz'') = StatNotExist \<and>
   OnSessionLookup (sampleOs [(''wwrsess/k1.wwrsess'', [9])]) sampleManager ''zz'' =
     (None, None) \<and>
   osStat (sampleOs [(''wwrsess/k1.wwrsess'', [9])])
     (filePath (sampleOs [(''wwrsess/k1.wwrsess'', [9])]) sampleManager ''k1'') = StatOk \<and>
   OnSessionLookup (sampleOs [(''wwrsess/k1.wwrsess'', [9])]) sampleManager ''k1'' =
     (Some \<lparr>Key = ''k1'', Creation = 9, LastLookup = 0, Info = None\<rparr>, None) \<and>
   fst (WriteFile (sampleOs []) \<lparr>fileCreation = 9, fileInfo = None\<rparr> ''wwrsess/k1.wwrsess'') =
     [IoWriteFile ''wwrsess/k1.wwrsess'' [9] 416]"
  using
    default_manager_lookup[where os = "sampleOs [(''wwrsess/k1.wwrsess'', [9])]"
      and mng = sampleManager and key = "''zz''"]
    default_manager_lookup[where os = "sampleOs [(''wwrsess/k1.wwrsess'', [9])]"
      and mng = sampleManager and key = "''k1''" and contents = "[9]"
      and parsed = "\<lparr>fileCreation = 9, fileInfo = None\<rparr>"]
    default_manager_lookup[where os = "sampleOs []"
      and sessf = "\<lparr>fileCreation = 9, fileInfo = None\<rparr>" and target = "''wwrsess/k1.wwrsess''"]
  by (simp add: sampleOs_sel sampleManager_def filePath_def WriteFile_def)

text \<open>
  A session written by \<^verbatim>\<open>OnSessionCreated\<close> goes to the file that a lookup of its key
  resolves.
\<close>

lemma created_session_file_path:
  "\<forall>c \<in> set (fst (OnSessionCreated os mng sess)).
     \<exists>encoded. c = IoWriteFile (filePath os mng (Key sess)) encoded perm_0640"
  by (auto simp: OnSessionCreated_def WriteFile_def split: sum.splits option.splits)


section \<open>Properties of request frames on the server\<close>

text \<open>
  C5: when the server receives a binary request frame whose name-length byte exceeds the
  number of remaining bytes, the frame does not parse and the server replies with exactly
  nine bytes: the protocol-error tag followed by the recovered request identifier, without
  payload. For the frame \<open>[RequestBinary, 0,0,0,0,0,0,0,0, 3, 0x41]\<close> the reply is
  \<open>[ReplyProtocolError, 0,0,0,0,0,0,0,0]\<close>.
\<close>

theorem name_length_violation_reply:
  assumes "hd message = tg MsgRequestBinary"
    and "10 \<le> length message"
    and "length message - 10 < unat (message ! 9)"
  shows "parseRequestBinary message = None \<and>
         serveBinaryRequest tg onRequest message =
           Some (tg MsgReplyProtocolError # take 8 (drop 1 message)) \<and>
         length (tg MsgReplyProtocolError # take 8 (drop 1 message)) = 9"
proof -
  have ne: "message \<noteq> []" using assms(2) by auto
  have p: "parseRequestBinary message = None"
    using assms(2,3) by (simp add: parseRequestBinary_def Let_def)
  show ?thesis
    using assms ne p
    by (simp add: serveBinaryRequest_def protocolErrorReply_def recoverRequestIdentifier_def)
qed

theorem name_length_violation_reply_witness:
  "sampleTags MsgRequestBinary = 127 \<and> sampleTags MsgReplyProtocolError = 6 \<and>
   hd [127, 0, 0, 0, 0, 0, 0, 0, 0, 3, 65] = sampleTags MsgRequestBinary \<and>
   length [127, 0, 0, 0, 0, 0, 0, 0, 0, 3, 65 :: byte] - 10 <
     unat ([127, 0, 0, 0, 0, 0, 0, 0, 0, 3, 65 :: byte] ! 9) \<and>
   serveBinaryRequest sampleTags reqPayload [127, 0, 0, 0, 0, 0, 0, 0, 0, 3, 65] =
     Some [6, 0, 0, 0, 0, 0, 0, 0, 0]"
  using name_length_violation_reply[of "[127, 0, 0, 0, 0, 0, 0, 0, 0, 3, 65]" sampleTags
      reqPayload]
  by simp


section \<open>Properties of the client's outbound operations\<close>

text \<open>
  C6: for a client with autoconnect disabled that is disconnected, every outbound
  operation, in particular \<^verbatim>\<open>RestoreSession\<close>, fails with \<open>DisconnectedErr\<close> at once:
  the client is returned as it was, so nothing has been written to the transport and no
  time has been spent waiting, whatever the network and the request timeout are.
\<close>

theorem disconnected_without_autoconnect:
  assumes "Autoconnect (options clt) = OptDisabled" and "status clt = StatDisconnected"
  shows "RestoreSession connectWithin roundTrip decode clt sessionKey =
           (RestoreFailed DisconnectedErr, clt) \<and>
         Request connectWithin roundTrip clt name payload = (Inl DisconnectedErr, clt) \<and>
         Signal connectWithin clt name payload = (Some DisconnectedErr, clt)"
  using assms
  by (simp add: RestoreSession_def Request_def Signal_def sendOutbound_def tryAutoconnect_def)

theorem disconnected_without_autoconnect_witness:
  "Autoconnect (options (NewClient
       \<lparr>Autoconnect = OptDisabled, ReconnectionInterval = 5, DefaultRequestTimeout = 50\<rparr>)) =
     OptDisabled \<and>
   status (NewClient
       \<lparr>Autoconnect = OptDisabled, ReconnectionInterval = 5, DefaultRequestTimeout = 50\<rparr>) =
     StatDisconnected \<and>
   RestoreSession unreachable noAnswer (jsonUnmarshalSession sampleDecoders)
     (NewClient \<lparr>Autoconnect = OptDisabled, ReconnectionInterval = 5, DefaultRequestTimeout = 50\<rparr>)
     [105, 110, 101, 120, 105, 115, 116, 101, 110, 116, 107, 101, 121] =
     (RestoreFailed DisconnectedErr,
      \<lparr>status = StatDisconnected,
        options = \<lparr>Autoconnect = OptDisabled, ReconnectionInterval = 5, DefaultRequestTimeout = 50\<rparr>,
        mirror = None, wire = [], waited = 0\<rparr>)"
  using disconnected_without_autoconnect[of
      "NewClient \<lparr>Autoconnect = OptDisabled, ReconnectionInterval = 5, DefaultRequestTimeout = 50\<rparr>"
      unreachable noAnswer "jsonUnmarshalSession sampleDecoders"
      "[105, 110, 101, 120, 105, 115, 116, 101, 110, 116, 107, 101, 121]"]
  by (simp add: NewClient_def)

text \<open>With autoconnect enabled the same operation is left to the reconnection loop.\<close>

lemma autoconnect_enabled_passes_to_network:
  assumes "Autoconnect (options clt) = OptEnabled" and "status clt = StatDisconnected"
  shows "tryAutoconnect connectWithin clt timeout = connectWithin clt timeout"
  using assms by (simp add: tryAutoconnect_def)

end
